theory Spec2Isabelle
  imports Main "HOL-Library.Word" "HOL-Library.Sublist"
begin

section \<open>Tempotown orchestrator client (package tempotown)\<close>

text \<open>
  A shallow embedding of the Tempotown hook: the JSON-RPC multiplexer (\<open>call\<close>,
  \<open>readLoop\<close>), the MCP layer (\<open>initialize\<close>, \<open>callTool\<close>), the agent controller
  (\<open>connect\<close>, \<open>registerAgent\<close>, \<open>handleEvent\<close>, \<open>pollFeedback\<close>, \<open>Stop\<close>) and the
  constructor. The hook is a record that is passed and returned. Goroutines are
  sequentialised at their blocking points: what the peer, the clock, the context and the
  scheduler do is an explicit input of each function.
\<close>

subsection \<open>Values of the runtime and of the libraries\<close>

text \<open>A finite \<open>float64\<close>: \<open>Float64 m e\<close> is the number \<open>m * 2 ^ e\<close>.\<close>

datatype float64 = Float64 int int

definition trunc_float64 :: "float64 \<Rightarrow> int" where
  "trunc_float64 f =
     (case f of Float64 m e \<Rightarrow>
        if 0 \<le> e then m * 2 ^ nat e else sgn m * (\<bar>m\<bar> div 2 ^ nat (- e)))"

text \<open>The conversion \<open>int64(f)\<close>: truncation towards zero. Out of range the Go
  specification leaves the result to the implementation; the model gives what amd64
  gives, the least \<open>int64\<close>.\<close>

definition int64_of_float64 :: "float64 \<Rightarrow> 64 word" where
  "int64_of_float64 f =
     (let t = trunc_float64 f
      in if - (2 ^ 63) \<le> t \<and> t < 2 ^ 63 then word_of_int t else word_of_int (- (2 ^ 63)))"

text \<open>A decoded JSON value, as \<open>encoding/json\<close> stores it in an \<open>any\<close>: \<open>JNull\<close> is Go's
  \<open>nil\<close>, a number is a \<open>float64\<close>.\<close>

datatype jany =
    JNull
  | JBool bool
  | JNum float64
  | JStr string
  | JArr "jany list"
  | JObj "(string \<times> jany) list"

text \<open>A buffered Go channel: the queued values, the capacity given to \<open>make\<close>, and
  whether \<open>close\<close> was called on it.\<close>

record 'a chan =
  buf :: "'a list"
  cap :: nat
  closed :: bool

definition make_chan :: "nat \<Rightarrow> 'a chan" where
  "make_chan n = \<lparr>buf = [], cap = n, closed = False\<rparr>"

text \<open>What a function call does, seen from its caller: it returns, it is blocked (in a
  \<open>select\<close> or a channel send with nothing ready), or it panics.\<close>

datatype 'a outcome = Returns 'a | Blocks | Panics

text \<open>Go \<open>error\<close> values. \<open>Errorf\<close> keeps the format string and its arguments apart,
  as passed to \<open>fmt.Errorf\<close>.\<close>

datatype fmtarg = ArgS string | ArgD int | ArgW goerror
and goerror =
    CtxErr                        \<comment> \<open>\<open>ctx.Err()\<close>\<close>
  | EncodeErr                     \<comment> \<open>the error of \<open>json.Encoder.Encode\<close>\<close>
  | DialErr                       \<comment> \<open>the error of \<open>DialContext\<close>\<close>
  | LoadConfigErr                 \<comment> \<open>the error of \<open>app.LoadConfig\<close>\<close>
  | UnmarshalErr                  \<comment> \<open>the error of \<open>json.Unmarshal\<close>\<close>
  | Errorf string "fmtarg list"

text \<open>Structured log records (\<open>log/slog\<close>): level, message, attributes.\<close>

datatype level = LevelDebug | LevelInfo | LevelWarn | LevelError

datatype logattr = AttrS string | AttrE goerror

type_synonym logrec = "level \<times> string \<times> (string \<times> logattr) list"

subsection \<open>Configuration and protocol types\<close>

record Config =
  Endpoint :: string
  Role :: string
  Capabilities :: "string list option"   \<comment> \<open>\<open>None\<close> is the nil slice\<close>
  PollIntervalSeconds :: int

definition HookName :: string where
  "HookName = ''tempotown''"

definition DefaultRole :: string where
  "DefaultRole = ''coder''"

text \<open>Durations are counted in nanoseconds, as \<open>time.Duration\<close> does.\<close>

definition Second :: int where
  "Second = 1000000000"

definition DefaultPollInterval :: int where
  "DefaultPollInterval = 5 * Second"

definition ReconnectDelay :: int where
  "ReconnectDelay = 5 * Second"

record Implementation =
  impl_Name :: string
  impl_Version :: string

record RootsCapability =
  ListChanged :: bool

record ClientCapability =
  Roots :: "RootsCapability option"
  Sampling :: "unit option"

record InitializeParams =
  ProtocolVersion :: string
  ClientInfo :: Implementation
  ip_Capabilities :: ClientCapability

record ToolCallParams =
  tc_Name :: string
  tc_Arguments :: "(string \<times> jany) list"

text \<open>The \<open>params any\<close> argument of \<open>call\<close>: the two structures the package passes.\<close>

datatype params = PInitialize InitializeParams | PToolCall ToolCallParams

record Request =
  req_JSONRPC :: string
  req_ID :: "64 word"
  req_Method :: string
  req_Params :: "params option"

record Notification =
  notif_JSONRPC :: string
  notif_Method :: string
  notif_Params :: "params option"

record RPCError =
  err_Code :: int
  err_Message :: string

text \<open>\<open>resp_Result\<close> is the raw JSON text of the \<open>result\<close> member.\<close>

record Response =
  resp_JSONRPC :: string
  resp_ID :: jany
  resp_Result :: string
  resp_Error :: "RPCError option"

record Content =
  c_Type :: string
  c_Text :: string

record ToolCallResult =
  Content :: "Content list"
  IsError :: bool

record FeedbackPayload =
  fb_Message :: string
  fb_Source :: string
  fb_TaskID :: string
  fb_Metadata :: "(string \<times> jany) list"

datatype frame = FRequest Request | FNotification Notification

subsection \<open>The hook\<close>

text \<open>
  The fields of \<open>TempotownHook\<close>. A connection is a handle (a number); \<open>encoder\<close> and
  \<open>decoder\<close> hold the handle of the connection they were made for. \<open>pending\<close> maps a
  request id to the reference of the caller's channel; the channels live in \<open>chans\<close>.
  The last five fields are not fields of the Go struct: \<open>chans\<close> is the heap of response
  channels made by \<open>call\<close> (\<open>nchans\<close> of them so far), \<open>wire\<close> lists every frame
  handed to an encoder (with the connection and whether the write succeeded),
  \<open>closedConns\<close> lists the connections on which \<open>Close\<close> was called, \<open>logs\<close> is what the
  logger received.
\<close>

record TempotownHook =
  cfg :: Config
  conn :: "nat option"
  encoder :: "nat option"
  decoder :: "nat option"
  requestID :: "64 word"
  pending :: "64 word \<rightharpoonup> nat"
  agentID :: string
  currentTask :: string
  phase :: string
  connected :: bool
  feedbackCh :: "FeedbackPayload chan"
  chans :: "nat \<Rightarrow> Response chan"
  nchans :: nat
  wire :: "(nat \<times> frame \<times> bool) list"
  closedConns :: "nat list"
  logs :: "logrec list"

definition logger :: "level \<Rightarrow> string \<Rightarrow> (string \<times> logattr) list \<Rightarrow> TempotownHook \<Rightarrow> TempotownHook" where
  "logger l msg attrs h = h\<lparr>logs := logs h @ [(l, msg, attrs)]\<rparr>"

text \<open>\<open>NewTempotownHook\<close>: the pair of results \<open>(*TempotownHook, error)\<close>.\<close>

definition NewTempotownHook :: "Config \<Rightarrow> TempotownHook option \<times> goerror option" where
  "NewTempotownHook c =
     (if Endpoint c = [] then (None, None)
      else
        let c1 = (if Role c = [] then c\<lparr>Role := DefaultRole\<rparr> else c);
            c2 = (if PollIntervalSeconds c1 = 0
                  then c1\<lparr>PollIntervalSeconds := DefaultPollInterval div Second\<rparr> else c1)
        in (Some \<lparr>cfg = c2, conn = None, encoder = None, decoder = None,
                   requestID = 0, pending = Map.empty, agentID = [], currentTask = [],
                   phase = ''init'', connected = False, feedbackCh = make_chan 10,
                   chans = (\<lambda>_. make_chan 1), nchans = 0, wire = [], closedConns = [], logs = []\<rparr>, None))"

text \<open>The factory registered in \<open>init\<close>; its first argument is the outcome of
  \<open>app.LoadConfig\<close>.\<close>

definition hookFactory :: "goerror + Config \<Rightarrow> TempotownHook option \<times> goerror option" where
  "hookFactory loaded =
     (case loaded of
        Inl e \<Rightarrow> (None, Some e)
      | Inr c \<Rightarrow>
          (case NewTempotownHook c of
             (_, Some e) \<Rightarrow> (None, Some e)
           | (None, None) \<Rightarrow> (None, None)
           | (Some hook, None) \<Rightarrow> (Some hook, None)))"

text \<open>The decoders of \<open>encoding/json\<close> the package relies on, one for each target
  structure; \<open>None\<close> is a non-nil error of \<open>json.Unmarshal\<close>. \<open>unmarshalAgentID\<close> gives
  the \<open>AgentID\<close> field of the decoded structure (empty when the member is absent),
  \<open>unmarshalFeedback\<close> its \<open>Items\<close> field.\<close>

record jsonlib =
  unmarshalToolCallResult :: "string \<Rightarrow> ToolCallResult option"
  unmarshalAgentID :: "string \<Rightarrow> string option"
  unmarshalFeedback :: "string \<Rightarrow> FeedbackPayload list option"

subsection \<open>Stop\<close>

definition Stop :: "TempotownHook \<Rightarrow> TempotownHook" where
  "Stop h =
     (let h1 = (case conn h of
                  Some c \<Rightarrow> h\<lparr>closedConns := closedConns h @ [c], conn := None\<rparr>
                | None \<Rightarrow> h);
          h2 = h1\<lparr>connected := False\<rparr>
      in logger LevelInfo ''Tempotown hook stopped'' [] h2)"

subsection \<open>The RPC multiplexer\<close>

text \<open>
  \<open>call\<close> up to its \<open>select\<close>: allocate the id, make the channel, install the slot,
  encode the request (\<open>wr_ok\<close> tells whether \<open>Encode\<close> succeeds), and on a write error
  remove the slot. With no encoder yet (\<open>nil\<close>) the call of \<open>Encode\<close> panics.
\<close>

definition call_send ::
  "TempotownHook \<Rightarrow> string \<Rightarrow> params option \<Rightarrow> bool
     \<Rightarrow> (TempotownHook \<times> (goerror + 64 word \<times> nat)) outcome" where
  "call_send h method ps wr_ok =
     (let rid = requestID h + 1;
          ch = nchans h;
          h1 = h\<lparr>requestID := rid, chans := (chans h)(ch := make_chan 1), nchans := Suc ch\<rparr>;
          h2 = h1\<lparr>pending := (pending h1)(rid \<mapsto> ch)\<rparr>;
          req = \<lparr>req_JSONRPC = ''2.0'', req_ID = rid, req_Method = method, req_Params = ps\<rparr>
      in case encoder h2 of
           None \<Rightarrow> Panics
         | Some c \<Rightarrow>
             (let h3 = h2\<lparr>wire := wire h2 @ [(c, FRequest req, wr_ok)]\<rparr>
              in if \<not> wr_ok
                 then Returns (h3\<lparr>pending := (pending h3)(rid := None)\<rparr>, Inl EncodeErr)
                 else Returns (h3, Inr (rid, ch))))"

text \<open>The cases of the \<open>select\<close> in \<open>call\<close>, in the order of the source, and the ones
  that are ready when the context is done or not, the channel holds a response or not,
  and \<open>elapsed\<close> nanoseconds have passed since the timer was made.\<close>

datatype wake = CtxDone | Recv | TimeAfter

definition ready :: "TempotownHook \<Rightarrow> nat \<Rightarrow> bool \<Rightarrow> int \<Rightarrow> wake list" where
  "ready h ch ctx_done elapsed =
     (if ctx_done then [CtxDone] else []) @
     (if buf (chans h ch) \<noteq> [] then [Recv] else []) @
     (if 30 * Second \<le> elapsed then [TimeAfter] else [])"

text \<open>
  The \<open>select\<close> of \<open>call\<close> and what follows it. With no case ready the caller stays
  blocked; with several ready Go takes one at random, here the one \<open>pick\<close> selects.
\<close>

definition call_wait ::
  "TempotownHook \<Rightarrow> 64 word \<Rightarrow> nat \<Rightarrow> bool \<Rightarrow> int \<Rightarrow> nat
     \<Rightarrow> (TempotownHook \<times> (goerror + Response)) outcome" where
  "call_wait h rid ch ctx_done elapsed pick =
     (let rs = ready h ch ctx_done elapsed
      in if rs = [] then Blocks
         else
           (case rs ! (pick mod length rs) of
              CtxDone \<Rightarrow> Returns (h\<lparr>pending := (pending h)(rid := None)\<rparr>, Inl CtxErr)
            | Recv \<Rightarrow>
                (case buf (chans h ch) of
                   [] \<Rightarrow> Blocks
                 | resp # rest \<Rightarrow>
                     (let h1 = h\<lparr>chans := (chans h)(ch := (chans h ch)\<lparr>buf := rest\<rparr>)\<rparr>
                      in case resp_Error resp of
                           Some e \<Rightarrow>
                             Returns (h1, Inl (Errorf ''RPC error %d: %s''
                                                 [ArgD (err_Code e), ArgS (err_Message e)]))
                         | None \<Rightarrow> Returns (h1, Inr resp)))
            | TimeAfter \<Rightarrow>
                Returns (h\<lparr>pending := (pending h)(rid := None)\<rparr>,
                         Inl (Errorf ''request timeout'' []))))"

text \<open>What \<open>Decode\<close> gives the reader: a response, \<open>io.EOF\<close>, \<open>net.ErrClosed\<close>, or
  another error (a syntax error, a member of the wrong type).\<close>

datatype decoded = Decoded Response | DecodeEOF | DecodeErrClosed | DecodeError

text \<open>The routing block of \<open>readLoop\<close>. The send \<open>ch <- &resp\<close> blocks when the
  buffer of the channel is full.\<close>

definition route :: "TempotownHook \<Rightarrow> Response \<Rightarrow> TempotownHook outcome" where
  "route h resp =
     (case resp_ID resp of
        JNum f \<Rightarrow>
          (let rid = int64_of_float64 f
           in case pending h rid of
                Some ch \<Rightarrow>
                  (if length (buf (chans h ch)) < cap (chans h ch)
                   then Returns (h\<lparr>chans := (chans h)(ch := (chans h ch)\<lparr>buf := buf (chans h ch) @ [resp]\<rparr>),
                                   pending := (pending h)(rid := None)\<rparr>)
                   else Blocks)
              | None \<Rightarrow> Returns h)
      | _ \<Rightarrow> Returns h)"

text \<open>
  \<open>readLoop\<close> over what the reader meets: for each iteration, whether the context is done
  at the head of the loop and what \<open>Decode\<close> gives. \<open>Reading\<close>: the input is used up and
  the reader waits in \<open>Decode\<close>; \<open>Returned\<close>: the function returned (and \<open>done\<close> is
  closed); \<open>Stuck\<close>: the reader is blocked in a channel send.
\<close>

datatype reader = Reading | Returned | Stuck

fun readLoop :: "TempotownHook \<Rightarrow> (bool \<times> decoded) list \<Rightarrow> TempotownHook \<times> reader" where
  "readLoop h [] = (h, Reading)"
| "readLoop h ((ctx_done, d) # rest) =
     (if ctx_done then (h, Returned)
      else
        (case d of
           DecodeEOF \<Rightarrow> (h, Returned)
         | DecodeErrClosed \<Rightarrow> (h, Returned)
         | DecodeError \<Rightarrow>
             (logger LevelError ''read error'' [(''error'', AttrE UnmarshalErr)] h, Returned)
         | Decoded resp \<Rightarrow>
             (case route h resp of
                Returns h' \<Rightarrow> readLoop h' rest
              | Blocks \<Rightarrow> (h, Stuck)
              | Panics \<Rightarrow> (h, Stuck))))"

text \<open>
  The whole of \<open>call\<close>. While the caller waits, the reader goes through \<open>inbound\<close>; then
  the \<open>select\<close> is evaluated with the context as \<open>ctx_done\<close> says, \<open>elapsed\<close> nanoseconds
  after the timer was made.
\<close>

record callenv =
  wr_ok :: bool
  inbound :: "(bool \<times> decoded) list"
  ctx_done :: bool
  elapsed :: int
  pick :: nat

definition call ::
  "TempotownHook \<Rightarrow> string \<Rightarrow> params option \<Rightarrow> callenv
     \<Rightarrow> (TempotownHook \<times> (goerror + Response)) outcome" where
  "call h method ps env =
     (case call_send h method ps (wr_ok env) of
        Panics \<Rightarrow> Panics
      | Blocks \<Rightarrow> Blocks
      | Returns (h1, Inl e) \<Rightarrow> Returns (h1, Inl e)
      | Returns (h1, Inr (rid, ch)) \<Rightarrow>
          call_wait (fst (readLoop h1 (inbound env))) rid ch (ctx_done env) (elapsed env) (pick env))"

definition sendNotification ::
  "TempotownHook \<Rightarrow> string \<Rightarrow> params option \<Rightarrow> bool \<Rightarrow> TempotownHook" where
  "sendNotification h method ps wr =
     (case encoder h of
        None \<Rightarrow> h
      | Some c \<Rightarrow>
          h\<lparr>wire := wire h @
               [(c, FNotification \<lparr>notif_JSONRPC = ''2.0'', notif_Method = method,
                                    notif_Params = ps\<rparr>, wr)]\<rparr>)"

subsection \<open>The MCP session\<close>

definition callTool ::
  "jsonlib \<Rightarrow> TempotownHook \<Rightarrow> string \<Rightarrow> (string \<times> jany) list \<Rightarrow> callenv
     \<Rightarrow> (TempotownHook \<times> (goerror + string)) outcome" where
  "callTool J h name args env =
     (case call h ''tools/call'' (Some (PToolCall \<lparr>tc_Name = name, tc_Arguments = args\<rparr>)) env of
        Panics \<Rightarrow> Panics
      | Blocks \<Rightarrow> Blocks
      | Returns (h1, Inl e) \<Rightarrow> Returns (h1, Inl e)
      | Returns (h1, Inr resp) \<Rightarrow>
          (case unmarshalToolCallResult J (resp_Result resp) of
             None \<Rightarrow> Returns (h1, Inl (Errorf ''unmarshal result: %w'' [ArgW UnmarshalErr]))
           | Some result \<Rightarrow>
               if IsError result
               then (case Content result of
                       c # _ \<Rightarrow> Returns (h1, Inl (Errorf ''tool error: %s'' [ArgS (c_Text c)]))
                     | [] \<Rightarrow> Returns (h1, Inl (Errorf ''tool error'' [])))
               else (case Content result of
                       c # _ \<Rightarrow> Returns (h1, Inr (c_Text c))
                     | [] \<Rightarrow> Returns (h1, Inr []))))"

definition initialize ::
  "TempotownHook \<Rightarrow> callenv \<Rightarrow> bool \<Rightarrow> (TempotownHook \<times> goerror option) outcome" where
  "initialize h env notif_ok =
     (let ps = \<lparr>ProtocolVersion = ''2024-11-05'',
                ClientInfo = \<lparr>impl_Name = ''crush'', impl_Version = ''1.0.0''\<rparr>,
                ip_Capabilities = \<lparr>Roots = None, Sampling = None\<rparr>\<rparr>
      in case call h ''initialize'' (Some (PInitialize ps)) env of
           Panics \<Rightarrow> Panics
         | Blocks \<Rightarrow> Blocks
         | Returns (h1, Inl e) \<Rightarrow> Returns (h1, Some e)
         | Returns (h1, Inr _) \<Rightarrow> Returns (sendNotification h1 ''initialized'' None notif_ok, None))"

subsection \<open>The agent controller\<close>

definition registerAgent ::
  "jsonlib \<Rightarrow> TempotownHook \<Rightarrow> callenv \<Rightarrow> (TempotownHook \<times> goerror option) outcome" where
  "registerAgent J h env =
     (let args = [(''role'', JStr (Role (cfg h))),
                  (''capabilities'',
                     (case Capabilities (cfg h) of None \<Rightarrow> JNull | Some cs \<Rightarrow> JArr (map JStr cs)))]
      in case callTool J h ''register_agent'' args env of
           Panics \<Rightarrow> Panics
         | Blocks \<Rightarrow> Blocks
         | Returns (h1, Inl e) \<Rightarrow> Returns (h1, Some e)
         | Returns (h1, Inr resp) \<Rightarrow>
             (let h2 = (case unmarshalAgentID J resp of
                          Some aid \<Rightarrow> if aid \<noteq> [] then h1\<lparr>agentID := aid\<rparr> else h1
                        | None \<Rightarrow> h1)
              in Returns (h2\<lparr>phase := ''idle''\<rparr>, None)))"

text \<open>
  \<open>connect\<close>: \<open>dial\<close> is the outcome of \<open>DialContext\<close> (the handle of the new connection).
  The reader started here is the one that goes through the \<open>inbound\<close> of the two calls.
\<close>

definition connect ::
  "jsonlib \<Rightarrow> TempotownHook \<Rightarrow> goerror + nat \<Rightarrow> callenv \<Rightarrow> bool \<Rightarrow> callenv
     \<Rightarrow> (TempotownHook \<times> goerror option) outcome" where
  "connect J h dial env_init notif_ok env_reg =
     (case dial of
        Inl e \<Rightarrow> Returns (h, Some (Errorf ''dial failed: %w'' [ArgW e]))
      | Inr c \<Rightarrow>
          (let h1 = h\<lparr>conn := Some c, encoder := Some c, decoder := Some c\<rparr>
           in case initialize h1 env_init notif_ok of
                Panics \<Rightarrow> Panics
              | Blocks \<Rightarrow> Blocks
              | Returns (h2, Some e) \<Rightarrow>
                  Returns (h2\<lparr>closedConns := closedConns h2 @ [c]\<rparr>,
                           Some (Errorf ''initialize failed: %w'' [ArgW e]))
              | Returns (h2, None) \<Rightarrow>
                  (case registerAgent J h2 env_reg of
                     Panics \<Rightarrow> Panics
                   | Blocks \<Rightarrow> Blocks
                   | Returns (h3, Some e) \<Rightarrow>
                       Returns (h3\<lparr>closedConns := closedConns h3 @ [c]\<rparr>,
                                Some (Errorf ''register failed: %w'' [ArgW e]))
                   | Returns (h3, None) \<Rightarrow>
                       Returns (logger LevelInfo ''connected to Tempotown''
                                  [(''agent_id'', AttrS (agentID h3))]
                                  (h3\<lparr>connected := True\<rparr>), None))))"

subsection \<open>Status projection\<close>

text \<open>Modelled from the spec: the declarations of \<open>plugin.MessageEvent\<close>, \<open>plugin.Message\<close>
  and \<open>plugin.ToolCallInfo\<close> (package \<open>plugin\<close> of the host): an event has a discriminator
  and a message with id, session id, role (one of user, assistant, system, tool),
  content and an ordered list of tool calls \<open>{id, name, input, finished}\<close>.\<close>

datatype MessageEventType = MessageCreated | MessageUpdated | MessageDeleted

datatype MessageRole =
  MessageRoleUser | MessageRoleAssistant | MessageRoleSystem | MessageRoleTool

record ToolCallInfo =
  tci_ID :: string
  tci_Name :: string
  tci_Input :: string
  tci_Finished :: bool

record Message =
  msg_ID :: string
  msg_SessionID :: string
  msg_Role :: MessageRole
  msg_Content :: string
  msg_ToolCalls :: "ToolCallInfo list"

record MessageEvent =
  ev_Type :: MessageEventType
  ev_Message :: Message

text \<open>A goroutine started with \<open>go\<close> that makes one \<open>callTool\<close>: the tool and its
  arguments.\<close>

type_synonym spawned = "string \<times> (string \<times> jany) list"

text \<open>\<open>reportStatus\<close> gives the goroutines it starts. \<open>progress\<close> is a Go \<open>int\<close>, put
  into the argument map as it is.\<close>

definition reportStatus ::
  "TempotownHook \<Rightarrow> string \<Rightarrow> int \<Rightarrow> (string \<times> jany) list option \<Rightarrow> spawned list" where
  "reportStatus h status progress details =
     (if \<not> connected h then []
      else
        [(''report_status'',
          [(''status'', JStr status), (''progress'', JNum (Float64 progress 0))] @
          (case details of None \<Rightarrow> [] | Some d \<Rightarrow> [(''details'', JObj d)]))])"

text \<open>The body of the goroutine of \<open>reportStatus\<close>.\<close>

definition reportStatus_go ::
  "jsonlib \<Rightarrow> TempotownHook \<Rightarrow> (string \<times> jany) list \<Rightarrow> callenv \<Rightarrow> TempotownHook outcome" where
  "reportStatus_go J h args env =
     (case callTool J h ''report_status'' args env of
        Panics \<Rightarrow> Panics
      | Blocks \<Rightarrow> Blocks
      | Returns (h1, Inl e) \<Rightarrow>
          Returns (logger LevelDebug ''failed to report status'' [(''error'', AttrE e)] h1)
      | Returns (h1, Inr _) \<Rightarrow> Returns h1)"

text \<open>The loop over \<open>msg.ToolCalls\<close> in \<open>handleEvent\<close>, with the statement after it.\<close>

fun handleEvent_toolCalls :: "TempotownHook \<Rightarrow> ToolCallInfo list \<Rightarrow> spawned list" where
  "handleEvent_toolCalls h [] = reportStatus h ''response complete'' 100 None"
| "handleEvent_toolCalls h (tc # rest) =
     (if \<not> tci_Finished tc
      then reportStatus h (''running tool: '' @ tci_Name tc) 50
             (Some [(''tool'', JStr (tci_Name tc)), (''tool_id'', JStr (tci_ID tc))])
      else handleEvent_toolCalls h rest)"

definition handleEvent :: "TempotownHook \<Rightarrow> MessageEvent \<Rightarrow> spawned list" where
  "handleEvent h event =
     (if \<not> connected h then []
      else
        (let msg = ev_Message event
         in case ev_Type event of
              MessageCreated \<Rightarrow>
                (case msg_Role msg of
                   MessageRoleUser \<Rightarrow> reportStatus h ''processing user input'' 0 None
                 | MessageRoleAssistant \<Rightarrow> reportStatus h ''generating response'' 50 None
                 | _ \<Rightarrow> [])
            | MessageUpdated \<Rightarrow>
                (if msg_Role msg = MessageRoleAssistant
                 then handleEvent_toolCalls h (msg_ToolCalls msg)
                 else [])
            | MessageDeleted \<Rightarrow> []))"

subsection \<open>Feedback polling\<close>

text \<open>One \<open>select\<close> with a send case and a \<open>default\<close>: the send is taken when the buffer
  has room, \<open>default\<close> (with its warning) otherwise. A send on a closed channel panics.\<close>

definition offer :: "TempotownHook \<Rightarrow> FeedbackPayload \<Rightarrow> TempotownHook outcome" where
  "offer h item =
     (let ch = feedbackCh h
      in if closed ch then Panics
         else if length (buf ch) < cap ch
         then Returns (h\<lparr>feedbackCh := ch\<lparr>buf := buf ch @ [item]\<rparr>\<rparr>)
         else Returns (logger LevelWarn ''feedback channel full, dropping''
                         [(''source'', AttrS (fb_Source item))] h))"

text \<open>The loop over \<open>feedback.Items\<close>.\<close>

fun pollFeedback_items :: "TempotownHook \<Rightarrow> FeedbackPayload list \<Rightarrow> TempotownHook outcome" where
  "pollFeedback_items h [] = Returns h"
| "pollFeedback_items h (item # rest) =
     (case offer h item of
        Returns h1 \<Rightarrow> pollFeedback_items h1 rest
      | Blocks \<Rightarrow> Blocks
      | Panics \<Rightarrow> Panics)"

definition pollFeedback :: "jsonlib \<Rightarrow> TempotownHook \<Rightarrow> callenv \<Rightarrow> TempotownHook outcome" where
  "pollFeedback J h env =
     (case callTool J h ''get_pending_feedback'' [(''limit'', JNum (Float64 10 0))] env of
        Panics \<Rightarrow> Panics
      | Blocks \<Rightarrow> Blocks
      | Returns (h1, Inl e) \<Rightarrow>
          Returns (logger LevelDebug ''failed to poll feedback'' [(''error'', AttrE e)] h1)
      | Returns (h1, Inr result) \<Rightarrow>
          (case unmarshalFeedback J result of
             None \<Rightarrow> Returns h1
           | Some items \<Rightarrow> pollFeedback_items h1 items))"

text \<open>One tick of \<open>pollFeedbackLoop\<close>.\<close>

definition pollFeedbackLoop_tick ::
  "jsonlib \<Rightarrow> TempotownHook \<Rightarrow> callenv \<Rightarrow> TempotownHook outcome" where
  "pollFeedbackLoop_tick J h env = (if connected h then pollFeedback J h env else Returns h)"

text \<open>The host receiving from the channel that \<open>FeedbackCh\<close> returns: the oldest item;
  on an empty channel the receive blocks, or gives nothing when the channel is closed.\<close>

definition FeedbackCh_recv :: "TempotownHook \<Rightarrow> (TempotownHook \<times> FeedbackPayload option) outcome" where
  "FeedbackCh_recv h =
     (let ch = feedbackCh h
      in case buf ch of
           item # rest \<Rightarrow> Returns (h\<lparr>feedbackCh := ch\<lparr>buf := rest\<rparr>\<rparr>, Some item)
         | [] \<Rightarrow> if closed ch then Returns (h, None) else Blocks)"

definition IsConnected :: "TempotownHook \<Rightarrow> bool" where
  "IsConnected h = connected h"

text \<open>\<open>connectionLoop\<close> after \<open>done\<close> is closed, and after a failed \<open>connect\<close>.\<close>

definition connectionLoop_lost :: "TempotownHook \<Rightarrow> TempotownHook" where
  "connectionLoop_lost h =
     logger LevelInfo ''connection lost, reconnecting...'' [] (h\<lparr>connected := False\<rparr>)"

definition connectionLoop_failed :: "TempotownHook \<Rightarrow> goerror \<Rightarrow> TempotownHook" where
  "connectionLoop_failed h e =
     logger LevelWarn ''failed to connect to Tempotown''
       [(''error'', AttrE e), (''endpoint'', AttrS (Endpoint (cfg h)))] h"

subsection \<open>Schedules\<close>

text \<open>The value a call returned, if it returned; whether it is blocked.\<close>

definition returned :: "'a outcome \<Rightarrow> 'a option" where
  "returned r = (case r of Returns x \<Rightarrow> Some x | Blocks \<Rightarrow> None | Panics \<Rightarrow> None)"

definition blocked :: "'a outcome \<Rightarrow> bool" where
  "blocked r = (case r of Returns x \<Rightarrow> False | Blocks \<Rightarrow> True | Panics \<Rightarrow> False)"

text \<open>
  A schedule is a list of steps: each is one function of the hook run to its return, with
  what its environment does. \<open>call\<close> also appears as its two halves, so that the calls
  of several goroutines can overlap.
\<close>

datatype step =
    DoConnect "goerror + nat" callenv bool callenv
  | DoLost
  | DoStop
  | DoCallSend string "params option" bool
  | DoCallWait "64 word" nat bool int nat
  | DoReadLoop "(bool \<times> decoded) list"
  | DoNotify string "params option" bool
  | DoCallTool string "(string \<times> jany) list" callenv
  | DoReportStatus "(string \<times> jany) list" callenv
  | DoPollTick callenv
  | DoRecv

definition exec :: "jsonlib \<Rightarrow> step \<Rightarrow> TempotownHook \<Rightarrow> TempotownHook outcome" where
  "exec J s h =
     (case s of
        DoConnect dial e1 n e2 \<Rightarrow>
          (case connect J h dial e1 n e2 of
             Returns (h1, Some e) \<Rightarrow> Returns (connectionLoop_failed h1 e)
           | Returns (h1, None) \<Rightarrow> Returns h1
           | Blocks \<Rightarrow> Blocks
           | Panics \<Rightarrow> Panics)
      | DoLost \<Rightarrow> Returns (connectionLoop_lost h)
      | DoStop \<Rightarrow> Returns (Stop h)
      | DoCallSend method ps w \<Rightarrow>
          (case call_send h method ps w of
             Returns (h1, _) \<Rightarrow> Returns h1 | Blocks \<Rightarrow> Blocks | Panics \<Rightarrow> Panics)
      | DoCallWait rid ch cd el pk \<Rightarrow>
          (case call_wait h rid ch cd el pk of
             Returns (h1, _) \<Rightarrow> Returns h1 | Blocks \<Rightarrow> Blocks | Panics \<Rightarrow> Panics)
      | DoReadLoop xs \<Rightarrow> Returns (fst (readLoop h xs))
      | DoNotify method ps w \<Rightarrow> Returns (sendNotification h method ps w)
      | DoCallTool name args env \<Rightarrow>
          (case callTool J h name args env of
             Returns (h1, _) \<Rightarrow> Returns h1 | Blocks \<Rightarrow> Blocks | Panics \<Rightarrow> Panics)
      | DoReportStatus args env \<Rightarrow> reportStatus_go J h args env
      | DoPollTick env \<Rightarrow> pollFeedbackLoop_tick J h env
      | DoRecv \<Rightarrow>
          (case FeedbackCh_recv h of
             Returns (h1, _) \<Rightarrow> Returns h1 | Blocks \<Rightarrow> Blocks | Panics \<Rightarrow> Panics))"

text \<open>A step that does not return at this point of the schedule is left out (the
  schedule says so with the halves of \<open>call\<close>); a panic ends the process.\<close>

fun run :: "jsonlib \<Rightarrow> TempotownHook \<Rightarrow> step list \<Rightarrow> TempotownHook" where
  "run J h [] = h"
| "run J h (s # ss) =
     (case exec J s h of
        Returns h1 \<Rightarrow> run J h1 ss
      | Blocks \<Rightarrow> run J h ss
      | Panics \<Rightarrow> h)"




subsection \<open>Notions used in the statements\<close>

text \<open>The fields a call of the multiplexer has no business with: two hooks agree on the
  configuration, the transport, the connection flag, the identity and the feedback
  channel.\<close>

definition same_session :: "TempotownHook \<Rightarrow> TempotownHook \<Rightarrow> bool" where
  "same_session h h' \<longleftrightarrow>
     cfg h' = cfg h \<and> conn h' = conn h \<and> encoder h' = encoder h \<and> decoder h' = decoder h \<and>
     connected h' = connected h \<and> closedConns h' = closedConns h \<and>
     agentID h' = agentID h \<and> currentTask h' = currentTask h \<and> phase h' = phase h \<and>
     feedbackCh h' = feedbackCh h"

text \<open>The \<open>report_status\<close> call of the specification's table: a goroutine calling the tool
  with \<open>{status, progress}\<close> and, when there are details, \<open>details\<close>.\<close>

definition spec_report_status ::
  "string \<Rightarrow> int \<Rightarrow> (string \<times> jany) list option \<Rightarrow> spawned" where
  "spec_report_status status progress details =
     (''report_status'',
      [(''status'', JStr status), (''progress'', JNum (Float64 progress 0))] @
      (case details of None \<Rightarrow> [] | Some d \<Rightarrow> [(''details'', JObj d)]))"

subsection \<open>A peer for the concrete runs\<close>

definition example_cfg :: Config where
  "example_cfg = \<lparr>Endpoint = ''127.0.0.1:9090'', Role = ''coder'',
                  Capabilities = Some [''code'', ''test''], PollIntervalSeconds = 1\<rparr>"

definition example_hook :: TempotownHook where
  "example_hook = the (fst (NewTempotownHook example_cfg))"

text \<open>The escaped quote of a JSON string, and the result of \<open>register_agent\<close> whose text
  is \<open>{"agent_id":"A-1"}\<close>.\<close>

definition esc_quote :: string where
  "esc_quote = [CHR 0x5C, CHR 0x22]"

definition raw_registered :: string where
  \<open>raw_registered =
     ''{"content":[{"type":"text","text":"{'' @ esc_quote @ ''agent_id'' @ esc_quote @ '':'' @
     esc_quote @ ''A-1'' @ esc_quote @ ''}"}]}''\<close>

definition raw_initialized :: string where
  \<open>raw_initialized = ''{"protocolVersion":"2024-11-05"}''\<close>

definition raw_not_json :: string where
  \<open>raw_not_json = ''{"content":[{"type":"text","text":"not json"}]}''\<close>

definition raw_nope :: string where
  \<open>raw_nope = ''{"content":[{"type":"text","text":"nope"}],"isError":true}''\<close>

text \<open>What \<open>encoding/json\<close> gives on the texts of the concrete runs; the runs decode no
  other text.\<close>

definition example_json :: jsonlib where
  \<open>example_json =
     \<lparr>unmarshalToolCallResult = (\<lambda>t.
        if t = raw_registered
        then Some \<lparr>Content = [\<lparr>c_Type = ''text'', c_Text = ''{"agent_id":"A-1"}''\<rparr>], IsError = False\<rparr>
        else if t = raw_not_json
        then Some \<lparr>Content = [\<lparr>c_Type = ''text'', c_Text = ''not json''\<rparr>], IsError = False\<rparr>
        else if t = raw_nope
        then Some \<lparr>Content = [\<lparr>c_Type = ''text'', c_Text = ''nope''\<rparr>], IsError = True\<rparr>
        else None),
      unmarshalAgentID = (\<lambda>t. if t = ''{"agent_id":"A-1"}'' then Some ''A-1'' else None),
      unmarshalFeedback = (\<lambda>t. None)\<rparr>\<close>

text \<open>A response of the peer with a numeric id, and the environment of a call that the
  peer answers with it at once.\<close>

definition reply :: "int \<Rightarrow> string \<Rightarrow> Response" where
  "reply n raw = \<lparr>resp_JSONRPC = ''2.0'', resp_ID = JNum (Float64 n 0), resp_Result = raw,
                  resp_Error = None\<rparr>"

definition answered :: "Response \<Rightarrow> callenv" where
  "answered resp = \<lparr>wr_ok = True, inbound = [(False, Decoded resp)], ctx_done = False,
                    elapsed = 0, pick = 0\<rparr>"

text \<open>The hook after a first successful \<open>connect\<close> on connection 0.\<close>

definition connected_hook :: TempotownHook where
  "connected_hook =
     run example_json example_hook
       [DoConnect (Inr 0) (answered (reply 1 raw_initialized)) True
          (answered (reply 2 raw_registered))]"

text \<open>The same, then the connection is lost and \<open>connect\<close> succeeds again, on
  connection 1; this time the text of the registration result is not JSON.\<close>

definition reconnected_hook :: TempotownHook where
  "reconnected_hook =
     run example_json example_hook
       [DoConnect (Inr 0) (answered (reply 1 raw_initialized)) True
          (answered (reply 2 raw_registered)),
        DoReadLoop [(False, DecodeEOF)], DoLost,
        DoConnect (Inr 1) (answered (reply 3 raw_initialized)) True
          (answered (reply 4 raw_not_json))]"

text \<open>The connected hook with one \<open>report_status\<close> request written and not yet
  answered: its caller waits in the \<open>select\<close> on channel 2, under id 3.\<close>

definition waiting_hook :: TempotownHook where
  "waiting_hook =
     run example_json connected_hook
       [DoCallSend ''tools/call''
          (Some (PToolCall \<lparr>tc_Name = ''report_status'',
                            tc_Arguments = [(''status'', JStr ''testing''),
                                            (''progress'', JNum (Float64 50 0))]\<rparr>)) True]"







section \<open>Properties\<close>

subsection \<open>Construction\<close>

text \<open>
  C7. A configuration with an empty endpoint gives no hook: \<open>NewTempotownHook\<close> returns
  \<open>(nil, nil)\<close> and so does the registered factory. Dialling, writing and closing are all
  operations on a hook, so with none there is no network activity.
\<close>

theorem construction_gating:
  "Endpoint c = [] \<Longrightarrow> NewTempotownHook c = (None, None) \<and> hookFactory (Inr c) = (None, None)"
  by (simp add: NewTempotownHook_def hookFactory_def)

theorem construction_gating_witness:
  "NewTempotownHook \<lparr>Endpoint = [], Role = ''coder'', Capabilities = None,
                      PollIntervalSeconds = 0\<rparr> = (None, None) \<and>
   hookFactory (Inr \<lparr>Endpoint = [], Role = ''coder'', Capabilities = None,
                      PollIntervalSeconds = 0\<rparr>) = (None, None)"
  using construction_gating
    [of "\<lparr>Endpoint = [], Role = ''coder'', Capabilities = None, PollIntervalSeconds = 0\<rparr>"]
  by simp

subsection \<open>Status projection\<close>

lemma handleEvent_toolCalls_find:
  "connected h \<Longrightarrow> handleEvent_toolCalls h tcs =
     (case find (\<lambda>tc. \<not> tci_Finished tc) tcs of
        Some tc \<Rightarrow> [spec_report_status (''running tool: '' @ tci_Name tc) 50
                      (Some [(''tool'', JStr (tci_Name tc)), (''tool_id'', JStr (tci_ID tc))])]
      | None \<Rightarrow> [spec_report_status ''response complete'' 100 None])"
  by (induction tcs) (simp_all add: reportStatus_def spec_report_status_def)

text \<open>
  C3. While the hook is connected, \<open>handleEvent\<close> starts exactly the \<open>report_status\<close> call
  of the table: created/user gives "processing user input" at 0; created/assistant gives
  "generating response" at 50; updated/assistant gives "running tool: name" at 50 with
  the tool and tool id of the first unfinished tool call when there is one, and
  "response complete" at 100 otherwise; every other event starts nothing.
\<close>

theorem status_projection:
  assumes "IsConnected h"
  shows "handleEvent h ev =
     (case (ev_Type ev, msg_Role (ev_Message ev)) of
        (MessageCreated, MessageRoleUser) \<Rightarrow>
          [spec_report_status ''processing user input'' 0 None]
      | (MessageCreated, MessageRoleAssistant) \<Rightarrow>
          [spec_report_status ''generating response'' 50 None]
      | (MessageUpdated, MessageRoleAssistant) \<Rightarrow>
          (case find (\<lambda>tc. \<not> tci_Finished tc) (msg_ToolCalls (ev_Message ev)) of
             Some tc \<Rightarrow>
               [spec_report_status (''running tool: '' @ tci_Name tc) 50
                  (Some [(''tool'', JStr (tci_Name tc)), (''tool_id'', JStr (tci_ID tc))])]
           | None \<Rightarrow> [spec_report_status ''response complete'' 100 None])
      | _ \<Rightarrow> [])"
  using assms handleEvent_toolCalls_find[of h "msg_ToolCalls (ev_Message ev)"]
  by (cases "ev_Type ev"; cases "msg_Role (ev_Message ev)")
     (simp_all add: handleEvent_def IsConnected_def reportStatus_def spec_report_status_def)

theorem status_projection_witness:
  "IsConnected connected_hook \<and>
   handleEvent connected_hook
     \<lparr>ev_Type = MessageUpdated,
      ev_Message = \<lparr>msg_ID = ''m1'', msg_SessionID = ''s1'', msg_Role = MessageRoleAssistant,
                    msg_Content = [],
                    msg_ToolCalls = [\<lparr>tci_ID = ''t1'', tci_Name = ''grep'', tci_Input = [],
                                      tci_Finished = False\<rparr>]\<rparr>\<rparr>
   = [spec_report_status ''running tool: grep'' 50
        (Some [(''tool'', JStr ''grep''), (''tool_id'', JStr ''t1'')])]"
proof -
  have c: "IsConnected connected_hook" by code_simp
  show ?thesis
    using c status_projection [OF c, of
     "\<lparr>ev_Type = MessageUpdated,
      ev_Message = \<lparr>msg_ID = ''m1'', msg_SessionID = ''s1'', msg_Role = MessageRoleAssistant,
                    msg_Content = [],
                    msg_ToolCalls = [\<lparr>tci_ID = ''t1'', tci_Name = ''grep'', tci_Input = [],
                                      tci_Finished = False\<rparr>]\<rparr>\<rparr>"]
    by simp
qed

subsection \<open>What a call leaves alone\<close>

lemma same_session_refl: "same_session h h"
  by (simp add: same_session_def)

lemma same_session_trans: "same_session h h1 \<Longrightarrow> same_session h1 h2 \<Longrightarrow> same_session h h2"
  by (simp add: same_session_def)

lemma call_send_same_session:
  "call_send h method ps w = Returns (h', r) \<Longrightarrow> same_session h h'"
  by (auto simp: call_send_def same_session_def Let_def split: option.splits if_splits)

lemma route_same_session: "route h resp = Returns h' \<Longrightarrow> same_session h h'"
  by (auto simp: route_def same_session_def Let_def split: jany.splits option.splits if_splits)

lemma readLoop_same_session: "same_session h (fst (readLoop h xs))"
proof (induction h xs rule: readLoop.induct)
  case (1 h)
  show ?case by (simp add: same_session_refl)
next
  case (2 h ctx_done d rest)
  show ?case
  proof (cases "ctx_done")
    case True
    then show ?thesis by (simp add: same_session_refl)
  next
    case False
    show ?thesis
    proof (cases d)
      case (Decoded resp)
      show ?thesis
      proof (cases "route h resp")
        case (Returns h')
        with 2 False Decoded have "same_session h' (fst (readLoop h' rest))" by simp
        moreover have "same_session h h'" using Returns by (rule route_same_session)
        ultimately show ?thesis using False Decoded Returns
          by (simp add: same_session_trans)
      qed (simp_all add: False Decoded same_session_refl)
    qed (simp_all add: False same_session_refl same_session_def logger_def)
  qed
qed

lemma call_wait_same_session:
  "call_wait h rid ch cd el pk = Returns (h', r) \<Longrightarrow> same_session h h'"
  by (auto simp: call_wait_def same_session_def Let_def
           split: wake.splits list.splits option.splits if_splits)

lemma call_same_session:
  assumes "call h method ps env = Returns (h', r)"
  shows "same_session h h'"
proof (cases "call_send h method ps (wr_ok env)")
  case (Returns p)
  obtain h1 r1 where p: "p = (h1, r1)" by (cases p)
  have s1: "same_session h h1" using Returns p by (auto intro: call_send_same_session)
  show ?thesis
  proof (cases r1)
    case (Inl e)
    with assms Returns p s1 show ?thesis by (simp add: call_def)
  next
    case (Inr q)
    obtain rid ch where q: "q = (rid, ch)" by (cases q)
    from assms Returns p Inr q
    have "call_wait (fst (readLoop h1 (inbound env))) rid ch (ctx_done env) (elapsed env) (pick env)
            = Returns (h', r)"
      by (simp add: call_def)
    then have "same_session (fst (readLoop h1 (inbound env))) h'"
      by (rule call_wait_same_session)
    with s1 readLoop_same_session[of h1 "inbound env"] show ?thesis
      by (blast intro: same_session_trans)
  qed
qed (use assms in \<open>simp_all add: call_def\<close>)

subsection \<open>Tool errors\<close>

lemma callTool_same_session:
  assumes "callTool J h name args env = Returns (h', r)"
  shows "same_session h h'"
proof (cases "call h ''tools/call'' (Some (PToolCall \<lparr>tc_Name = name, tc_Arguments = args\<rparr>)) env")
  case (Returns p)
  obtain h1 r1 where p: "p = (h1, r1)" by (cases p)
  have "same_session h h1" using Returns p by (auto intro: call_same_session)
  moreover have "h' = h1"
    using assms Returns p
    by (auto simp: callTool_def split: sum.splits option.splits if_splits list.splits)
  ultimately show ?thesis by simp
qed (use assms in \<open>simp_all add: callTool_def\<close>)

lemma call_returns_encoder:
  "call h method ps env = Returns x \<Longrightarrow> encoder h \<noteq> None"
  by (auto simp: call_def call_send_def Let_def split: option.splits)

lemma call_send_proceeds:
  "encoder h = Some c \<Longrightarrow>
     \<exists>h2. call_send h method ps True = Returns (h2, Inr (requestID h + 1, nchans h)) \<and>
          encoder h2 = encoder h"
  unfolding call_send_def Let_def by simp

text \<open>
  C4. When the result of a \<open>tools/call\<close> decodes with \<open>isError\<close> true, \<open>callTool\<close> fails that
  call with the error "tool error: text of the first content block" (plain "tool error"
  when there is no block). The hook is in the state the underlying \<open>call\<close> left: the
  connection flag, the connection, its encoder and the list of closed connections are as
  before the call, and the next \<open>call\<close> on it is written to the same encoder under the
  next id.
\<close>

theorem tool_error_isolation:
  assumes "call h ''tools/call'' (Some (PToolCall \<lparr>tc_Name = name, tc_Arguments = args\<rparr>)) env
             = Returns (h1, Inr resp)"
    and "unmarshalToolCallResult J (resp_Result resp) = Some result"
    and "IsError result"
  shows "callTool J h name args env =
           Returns (h1, Inl (case Content result of
                               c # _ \<Rightarrow> Errorf ''tool error: %s'' [ArgS (c_Text c)]
                             | [] \<Rightarrow> Errorf ''tool error'' []))
         \<and> connected h1 = connected h \<and> conn h1 = conn h \<and> encoder h1 = encoder h
         \<and> closedConns h1 = closedConns h
         \<and> (\<exists>h2. call_send h1 method ps True = Returns (h2, Inr (requestID h1 + 1, nchans h1))
                  \<and> encoder h2 = encoder h)"
proof -
  have s: "same_session h h1" using assms(1) by (rule call_same_session)
  have e: "encoder h \<noteq> None" using assms(1) by (rule call_returns_encoder)
  have 1: "callTool J h name args env =
           Returns (h1, Inl (case Content result of
                               c # _ \<Rightarrow> Errorf ''tool error: %s'' [ArgS (c_Text c)]
                             | [] \<Rightarrow> Errorf ''tool error'' []))"
    using assms by (simp add: callTool_def split: list.splits)
  from s e obtain c where c: "encoder h1 = Some c" by (auto simp: same_session_def)
  have 2: "\<exists>h2. call_send h1 method ps True = Returns (h2, Inr (requestID h1 + 1, nchans h1))
                  \<and> encoder h2 = encoder h"
    using call_send_proceeds [OF c, of "method" "ps"] s by (simp add: same_session_def)
  from 1 2 s show ?thesis by (simp add: same_session_def)
qed

lemma returns_the:
  "map_option snd (returned r) = Some y \<Longrightarrow> r = Returns (fst (the (returned r)), y)"
  by (cases r) (auto simp: returned_def)

theorem tool_error_isolation_witness:
  "map_option snd (returned (callTool example_json connected_hook ''report_status''
       [(''status'', JStr ''testing''), (''progress'', JNum (Float64 50 0))]
       (answered (reply 3 raw_nope))))
     = Some (Inl (Errorf ''tool error: %s'' [ArgS ''nope'']))
   \<and> map_option (connected \<circ> fst) (returned (callTool example_json connected_hook ''report_status''
       [(''status'', JStr ''testing''), (''progress'', JNum (Float64 50 0))]
       (answered (reply 3 raw_nope)))) = Some True"
proof -
  let ?args = "[(''status'', JStr ''testing''), (''progress'', JNum (Float64 50 0))]"
  let ?c = "call connected_hook ''tools/call''
              (Some (PToolCall \<lparr>tc_Name = ''report_status'', tc_Arguments = ?args\<rparr>))
              (answered (reply 3 raw_nope))"
  have "map_option snd (returned ?c) = Some (Inr (reply 3 raw_nope))" by code_simp
  then have a1: "?c = Returns (fst (the (returned ?c)), Inr (reply 3 raw_nope))"
    by (rule returns_the)
  have a2: "unmarshalToolCallResult example_json (resp_Result (reply 3 raw_nope))
              = Some \<lparr>Content = [\<lparr>c_Type = ''text'', c_Text = ''nope''\<rparr>], IsError = True\<rparr>"
    by code_simp
  have a3: "IsError \<lparr>Content = [\<lparr>c_Type = ''text'', c_Text = ''nope''\<rparr>], IsError = True\<rparr>"
    by simp
  have c: "connected connected_hook" by code_simp
  show ?thesis
    using tool_error_isolation [OF a1 a2 a3] c by (simp add: returned_def)
qed

subsection \<open>Registration\<close>

text \<open>
  C8 (amended). After a successful \<open>register_agent\<close> tool call \<open>registerAgent\<close> succeeds and
  sets the phase to idle. When the returned text decodes and gives a non-empty
  \<open>agent_id\<close>, that value becomes the agent id; otherwise (the text does not decode, or
  the id is absent or empty) the agent id keeps the value it had before the call: empty
  on a new hook, the id of the earlier registration after a reconnect.
\<close>

theorem registration_agent_id:
  assumes "callTool J h ''register_agent''
             [(''role'', JStr (Role (cfg h))),
              (''capabilities'',
                 (case Capabilities (cfg h) of None \<Rightarrow> JNull | Some cs \<Rightarrow> JArr (map JStr cs)))] env
           = Returns (h1, Inr text)"
  shows "registerAgent J h env =
           Returns (h1\<lparr>agentID := (case unmarshalAgentID J text of
                                      Some aid \<Rightarrow> if aid \<noteq> [] then aid else agentID h
                                    | None \<Rightarrow> agentID h),
                       phase := ''idle''\<rparr>, None)"
proof -
  have "same_session h h1" using assms by (rule callTool_same_session)
  then have a: "agentID h1 = agentID h" by (simp add: same_session_def)
  have e: "h1\<lparr>agentID := agentID h1\<rparr> = h1" by simp
  show ?thesis
    using assms a e by (simp add: registerAgent_def split: option.splits)
qed

theorem registration_agent_id_witness:
  "map_option (agentID \<circ> fst)
     (returned (registerAgent example_json
        (example_hook\<lparr>conn := Some 0, encoder := Some 0, decoder := Some 0\<rparr>)
        (answered (reply 1 raw_registered)))) = Some ''A-1''"
proof -
  let ?h = "example_hook\<lparr>conn := Some 0, encoder := Some 0, decoder := Some 0\<rparr>"
  let ?c = "callTool example_json ?h ''register_agent''
             [(''role'', JStr (Role (cfg ?h))),
              (''capabilities'',
                 (case Capabilities (cfg ?h) of None \<Rightarrow> JNull | Some cs \<Rightarrow> JArr (map JStr cs)))]
             (answered (reply 1 raw_registered))"
  have "map_option snd (returned ?c) = Some (Inr ''{\"agent_id\":\"A-1\"}'')" by code_simp
  then have a1: "?c = Returns (fst (the (returned ?c)), Inr ''{\"agent_id\":\"A-1\"}'')"
    by (rule returns_the)
  have a2: "unmarshalAgentID example_json ''{\"agent_id\":\"A-1\"}'' = Some ''A-1''"
    by code_simp
  show ?thesis
    using registration_agent_id [OF a1] a2 by (simp add: returned_def)
qed

theorem registration_agent_id_counterexample:
  "agentID connected_hook = ''A-1'' \<and>
   unmarshalToolCallResult example_json raw_not_json
     = Some \<lparr>Content = [\<lparr>c_Type = ''text'', c_Text = ''not json''\<rparr>], IsError = False\<rparr> \<and>
   unmarshalAgentID example_json ''not json'' = None \<and>
   connected reconnected_hook \<and> conn reconnected_hook = Some 1 \<and>
   phase reconnected_hook = ''idle'' \<and>
   agentID reconnected_hook = ''A-1'' \<and> agentID reconnected_hook \<noteq> []"
  by code_simp

subsection \<open>The feedback channel\<close>






subsection \<open>The reader at the end of a transport\<close>





subsection \<open>Stop\<close>

text \<open>
  C2 (amended). \<open>Stop\<close> closes the connection if there is one, clears the reference to
  it and the connection flag, and logs; with no connection (no start before) it only
  clears the flag and logs. It leaves the pending requests, their channels and the
  feedback channel as they are: it fails no pending call and does not close the
  feedback channel.
\<close>

theorem stop_effects:
  "Stop h = h\<lparr>closedConns := closedConns h @ (case conn h of Some c \<Rightarrow> [c] | None \<Rightarrow> []),
              conn := None, connected := False,
              logs := logs h @ [(LevelInfo, ''Tempotown hook stopped'', [])]\<rparr> \<and>
   pending (Stop h) = pending h \<and> chans (Stop h) = chans h \<and>
   feedbackCh (Stop h) = feedbackCh h"
  by (cases "conn h") (simp_all add: Stop_def logger_def Let_def)

theorem stop_cancels_counterexample:
  "conn waiting_hook = Some 0 \<and> pending waiting_hook 3 = Some 2 \<and>
   closedConns (Stop waiting_hook) = [0] \<and> \<not> connected (Stop waiting_hook) \<and>
   pending (Stop waiting_hook) 3 = Some 2 \<and>
   buf (chans (Stop waiting_hook) 2) = [] \<and>
   blocked (call_wait (Stop waiting_hook) 3 2 False 0 0) \<and>
   \<not> closed (feedbackCh (Stop waiting_hook)) \<and>
   blocked (FeedbackCh_recv (Stop waiting_hook))"
  by code_simp

subsection \<open>Waiting for a response\<close>



lemma ready_mem:
  "w \<in> set (ready h ch cd el) \<longleftrightarrow>
     (w = CtxDone \<and> cd) \<or> (w = Recv \<and> buf (chans h ch) \<noteq> []) \<or>
     (w = TimeAfter \<and> 30 * Second \<le> el)"
  by (auto simp: ready_def)

lemma call_wait_forms:
  "(ready h ch cd el = [] \<and> call_wait h rid ch cd el pk = Blocks) \<or>
   (cd \<and> call_wait h rid ch cd el pk =
            Returns (h\<lparr>pending := (pending h)(rid := None)\<rparr>, Inl CtxErr)) \<or>
   (30 * Second \<le> el \<and> call_wait h rid ch cd el pk =
            Returns (h\<lparr>pending := (pending h)(rid := None)\<rparr>, Inl (Errorf ''request timeout'' []))) \<or>
   (\<exists>resp rest. buf (chans h ch) = resp # rest \<and>
      call_wait h rid ch cd el pk =
        Returns (h\<lparr>chans := (chans h)(ch := (chans h ch)\<lparr>buf := rest\<rparr>)\<rparr>,
                 case resp_Error resp of
                   Some e \<Rightarrow> Inl (Errorf ''RPC error %d: %s'' [ArgD (err_Code e), ArgS (err_Message e)])
                 | None \<Rightarrow> Inr resp))"
proof (cases "ready h ch cd el = []")
  case True
  then show ?thesis by (simp add: call_wait_def)
next
  case False
  let ?w = "ready h ch cd el ! (pk mod length (ready h ch cd el))"
  have "?w \<in> set (ready h ch cd el)" using False by simp
  then have m: "(?w = CtxDone \<and> cd) \<or> (?w = Recv \<and> buf (chans h ch) \<noteq> []) \<or>
     (?w = TimeAfter \<and> 30 * Second \<le> el)"
    by (simp only: ready_mem)
  show ?thesis
  proof (cases ?w)
    case CtxDone
    with m False show ?thesis by (simp add: call_wait_def)
  next
    case TimeAfter
    with m False show ?thesis by (simp add: call_wait_def)
  next
    case Recv
    with m obtain resp rest where b: "buf (chans h ch) = resp # rest"
      by (cases "buf (chans h ch)") auto
    have "call_wait h rid ch cd el pk =
        Returns (h\<lparr>chans := (chans h)(ch := (chans h ch)\<lparr>buf := rest\<rparr>)\<rparr>,
                 case resp_Error resp of
                   Some e \<Rightarrow> Inl (Errorf ''RPC error %d: %s'' [ArgD (err_Code e), ArgS (err_Message e)])
                 | None \<Rightarrow> Inr resp)"
      using Recv False b by (simp add: call_wait_def split: option.splits)
    with b show ?thesis by blast
  qed
qed








subsection \<open>Responses whose id is not a number\<close>

lemma route_non_number:
  "(\<And>f. resp_ID resp \<noteq> JNum f) \<Longrightarrow> route h resp = Returns h"
proof (cases "resp_ID resp")
  case (JNum f)
  assume "\<And>f. resp_ID resp \<noteq> JNum f"
  with JNum show ?thesis by blast
qed (simp_all add: route_def)

text \<open>
  C10. A response whose \<open>id\<close> is not a JSON number (a string, even one that spells a
  pending id, a boolean, an array, an object, or null) is ignored by the reader: the
  pending map, the callers' channels and the log stay as they are and the reader goes
  on. A caller whose slot was empty therefore still has it empty: at that point its
  \<open>select\<close> is blocked, or it ends with the context's error or the timeout.
\<close>

theorem non_numeric_id_ignored:
  assumes "\<forall>f. resp_ID resp \<noteq> JNum f"
  shows "route h resp = Returns h \<and>
         readLoop h ((False, Decoded resp) # rest) = readLoop h rest \<and>
         (buf (chans h ch) = [] \<longrightarrow>
            call_wait (fst (readLoop h [(False, Decoded resp)])) rid ch cd el pk = Blocks \<or>
            call_wait (fst (readLoop h [(False, Decoded resp)])) rid ch cd el pk =
              Returns (h\<lparr>pending := (pending h)(rid := None)\<rparr>, Inl CtxErr) \<or>
            call_wait (fst (readLoop h [(False, Decoded resp)])) rid ch cd el pk =
              Returns (h\<lparr>pending := (pending h)(rid := None)\<rparr>,
                       Inl (Errorf ''request timeout'' [])))"
proof -
  have r: "route h resp = Returns h" using assms by (intro route_non_number) simp
  then have l: "readLoop h ((False, Decoded resp) # rest) = readLoop h rest" by simp
  from r have f: "fst (readLoop h [(False, Decoded resp)]) = h" by simp
  have w: "buf (chans h ch) = [] \<longrightarrow>
            call_wait h rid ch cd el pk = Blocks \<or>
            call_wait h rid ch cd el pk =
              Returns (h\<lparr>pending := (pending h)(rid := None)\<rparr>, Inl CtxErr) \<or>
            call_wait h rid ch cd el pk =
              Returns (h\<lparr>pending := (pending h)(rid := None)\<rparr>,
                       Inl (Errorf ''request timeout'' []))"
    using call_wait_forms [of h ch cd el rid pk] by auto
  from r l w show ?thesis by (simp only: f)
qed

theorem non_numeric_id_ignored_witness:
  "pending waiting_hook 3 = Some 2 \<and>
   readLoop waiting_hook
     ((False, Decoded \<lparr>resp_JSONRPC = ''2.0'', resp_ID = JStr ''3'', resp_Result = raw_nope,
                        resp_Error = None\<rparr>) # []) = (waiting_hook, Reading) \<and>
   buf (chans waiting_hook 2) = []"
proof -
  let ?r = "\<lparr>resp_JSONRPC = ''2.0'', resp_ID = JStr ''3'', resp_Result = raw_nope,
             resp_Error = None\<rparr>"
  have a: "\<forall>f. resp_ID ?r \<noteq> JNum f" by simp
  have p: "pending waiting_hook 3 = Some 2" by code_simp
  have b: "buf (chans waiting_hook 2) = []" by code_simp
  from non_numeric_id_ignored [OF a, of waiting_hook "[]"]
  have "readLoop waiting_hook ((False, Decoded ?r) # []) = readLoop waiting_hook []" by blast
  then have "readLoop waiting_hook ((False, Decoded ?r) # []) = (waiting_hook, Reading)" by simp
  with p b show ?thesis by blast
qed

subsection \<open>Request ids\<close>



























end
